theory Spec2Isabelle
  imports Complex_Main
begin

section \<open>The audio recorder of pyRecorderApp (src/audiomodel.py)\<close>

text \<open>
  The class \<^verbatim>\<open>AudioRecorder\<close> is embedded as a record of its attributes together with
  the parts of the outside world its methods act on (the file system, the two output
  streams and the warnings issued). Every method is a function from the state to an
  outcome and the state it leaves behind: Python keeps the mutations made before an
  exception, so the state is returned on both paths.

  Conventions.
  \<^item> Audio samples are \<^verbatim>\<open>float32\<close> in the source. No method computes with them (they
    are copied only), so they are modelled as real numbers.
  \<^item> Times (\<^verbatim>\<open>_block_length\<close>, \<^verbatim>\<open>_rectime\<close>) are Python floats; they are modelled as
    real numbers, so the rounding of binary floating point is not part of the model.
  \<^item> The threads of the source are not modelled: each method runs to completion, and
    the interleavings are those of whole method calls.
\<close>

subsection \<open>Exceptions and outcomes\<close>

datatype error =
    ValueError | KeyError | IndexError | TypeError | AttributeError
  | RuntimeError | Empty | LibsndfileError

datatype 'a result = Ok 'a | Raise error

subsection \<open>numpy arrays of two dimensions\<close>

type_synonym sample = real

text \<open>
  A two-dimensional array is its list of rows and its number of columns (which the
  rows alone do not give when there is no row). Its shape is \<open>(nrows a, ncols a)\<close>.
\<close>

datatype ndarray = NDArray (ncols: nat) (rows: "sample list list")

definition nrows :: "ndarray \<Rightarrow> nat" where
  "nrows a = length (rows a)"

definition wf_ndarray :: "ndarray \<Rightarrow> bool" where
  "wf_ndarray a = list_all (\<lambda>r. length r = ncols a) (rows a)"

definition zero_row :: "nat \<Rightarrow> sample list" where
  "zero_row c = replicate c 0"

text \<open>\<^verbatim>\<open>np.zeros((r, c), dtype=np.float32)\<close>\<close>

definition np_zeros :: "nat \<Rightarrow> nat \<Rightarrow> ndarray" where
  "np_zeros r c = NDArray c (replicate r (zero_row c))"

text \<open>\<^verbatim>\<open>a.nbytes\<close> for \<^verbatim>\<open>float32\<close>: four bytes an element.\<close>

definition nbytes :: "ndarray \<Rightarrow> int" where
  "nbytes a = int (4 * nrows a * ncols a)"

text \<open>
  numpy's broadcasting of a value of shape \<open>(nrows v, ncols v)\<close> to the shape \<open>(r, c)\<close>:
  each dimension of the value is the target's or is 1 (then the single row, or the
  single element of each row, is repeated); any other shape is refused.
\<close>

definition stretch_row :: "nat \<Rightarrow> nat \<Rightarrow> sample list \<Rightarrow> sample list" where
  "stretch_row c vc row =
     (if vc = c then row else case row of [] \<Rightarrow> [] | x # _ \<Rightarrow> replicate c x)"

definition broadcast_to :: "nat \<Rightarrow> nat \<Rightarrow> ndarray \<Rightarrow> sample list list option" where
  "broadcast_to r c v =
     (if (nrows v = r \<or> nrows v = 1) \<and> (ncols v = c \<or> ncols v = 1) then
        Some (map (stretch_row c (ncols v))
               (if nrows v = r then rows v
                else case rows v of [] \<Rightarrow> [] | row # _ \<Rightarrow> replicate r row))
      else None)"

text \<open>
  The slice assignment \<^verbatim>\<open>a[p:p + n, :] = v\<close>. A slice is clipped to the rows the array
  has; the value is broadcast to the shape of the slice, and numpy raises
  \<^verbatim>\<open>ValueError\<close>, before writing anything, when it cannot be.
\<close>

definition set_rows :: "ndarray \<Rightarrow> nat \<Rightarrow> nat \<Rightarrow> ndarray \<Rightarrow> error + ndarray" where
  "set_rows a p n v =
     (let lo = min p (nrows a); hi = min (p + n) (nrows a) in
      case broadcast_to (hi - lo) (ncols a) v of
        None \<Rightarrow> Inl ValueError
      | Some rs \<Rightarrow> Inr (NDArray (ncols a) (take lo (rows a) @ rs @ drop hi (rows a))))"

subsection \<open>The queue of sound blocks (\<^verbatim>\<open>queue.Queue(-1)\<close>)\<close>

text \<open>
  An unbounded FIFO queue: its items, oldest first, and the counter of unfinished
  tasks that \<^verbatim>\<open>put\<close> increments and \<^verbatim>\<open>task_done\<close> decrements.
\<close>

record sound_queue =
  items :: "ndarray list"
  unfinished_tasks :: nat

definition new_queue :: sound_queue where
  "new_queue = \<lparr>items = [], unfinished_tasks = 0\<rparr>"

definition qsize :: "sound_queue \<Rightarrow> nat" where
  "qsize q = length (items q)"

definition empty_q :: "sound_queue \<Rightarrow> bool" where
  "empty_q q = (qsize q = 0)"

text \<open>\<^verbatim>\<open>put\<close> never blocks and never raises \<^verbatim>\<open>Full\<close>: the queue has no bound.\<close>

definition put :: "sound_queue \<Rightarrow> ndarray \<Rightarrow> sound_queue" where
  "put q x = q\<lparr>items := items q @ [x], unfinished_tasks := unfinished_tasks q + 1\<rparr>"

text \<open>\<^verbatim>\<open>get(False)\<close>: the oldest item, or \<^verbatim>\<open>queue.Empty\<close>.\<close>

definition get_nowait :: "sound_queue \<Rightarrow> error + (ndarray \<times> sound_queue)" where
  "get_nowait q =
     (case items q of [] \<Rightarrow> Inl Empty | x # xs \<Rightarrow> Inr (x, q\<lparr>items := xs\<rparr>))"

text \<open>\<^verbatim>\<open>task_done\<close> raises \<^verbatim>\<open>ValueError\<close> when called more often than \<^verbatim>\<open>put\<close>.\<close>

definition task_done :: "sound_queue \<Rightarrow> error + sound_queue" where
  "task_done q =
     (if unfinished_tasks q = 0 then Inl ValueError
      else Inr (q\<lparr>unfinished_tasks := unfinished_tasks q - 1\<rparr>))"

subsection \<open>Strings: \<^verbatim>\<open>casefold\<close>, \<^verbatim>\<open>split\<close>, \<^verbatim>\<open>rfind\<close>, \<^verbatim>\<open>format\<close> of an integer\<close>

text \<open>
  \<^verbatim>\<open>str.casefold\<close> on ASCII: the capital letters become small. (On other characters
  Python folds more; the names of the sound formats are ASCII.)
\<close>

definition casefold_char :: "char \<Rightarrow> char" where
  "casefold_char c =
     (case map_of (zip ''ABCDEFGHIJKLMNOPQRSTUVWXYZ'' ''abcdefghijklmnopqrstuvwxyz'') c of
        None \<Rightarrow> c
      | Some l \<Rightarrow> l)"

definition casefold :: "string \<Rightarrow> string" where
  "casefold s = map casefold_char s"

text \<open>\<^verbatim>\<open>s.split(c)\<close>: the pieces between the occurrences of \<open>c\<close>, never an empty list.\<close>

fun split_on :: "char \<Rightarrow> string \<Rightarrow> string list" where
  "split_on c [] = [[]]"
| "split_on c (x # xs) =
     (if x = c then [] # split_on c xs
      else case split_on c xs of [] \<Rightarrow> [[x]] | w # ws \<Rightarrow> (x # w) # ws)"

text \<open>\<^verbatim>\<open>s.rfind(c)\<close>: the last index of \<open>c\<close>; \<open>None\<close> stands for Python's \<open>-1\<close>.\<close>

definition rfind :: "char \<Rightarrow> string \<Rightarrow> nat option" where
  "rfind c s =
     (case filter (\<lambda>i. s ! i = c) (rev [0..<length s]) of [] \<Rightarrow> None | i # _ \<Rightarrow> Some i)"

text \<open>\<^verbatim>\<open>'{}'.format(n)\<close> for a natural number: its decimal digits.\<close>

definition digit_char :: "nat \<Rightarrow> char" where
  "digit_char d = ''0123456789'' ! d"

fun str_nat :: "nat \<Rightarrow> string" where
  "str_nat n = (if n < 10 then [digit_char n] else str_nat (n div 10) @ [digit_char (n mod 10)])"

declare str_nat.simps [simp del]

subsection \<open>Paths (\<^verbatim>\<open>pathlib.Path\<close>)\<close>

text \<open>
  A path is held as pathlib splits it: \<open>path_parent\<close> is \<^verbatim>\<open>str(p.parent)\<close> (\<^verbatim>\<open>'.'\<close> for a
  bare file name, \<^verbatim>\<open>'/tmp'\<close>, \<^verbatim>\<open>'/'\<close>) and \<open>path_name\<close> is \<^verbatim>\<open>p.name\<close>, the last component
  (empty for \<^verbatim>\<open>Path('.')\<close> and \<^verbatim>\<open>Path('/')\<close>). The parsing of a string into a path by
  \<^verbatim>\<open>Path(filepath)\<close> is not modelled: \<open>start_recording\<close> receives the parsed path.
\<close>

record path =
  path_parent :: string
  path_name :: string

text \<open>\<^verbatim>\<open>str(p)\<close>\<close>

definition str_path :: "path \<Rightarrow> string" where
  "str_path p =
     (if path_name p = [] then path_parent p
      else if path_parent p = ''.'' then path_name p
      else if path_parent p \<noteq> [] \<and> last (path_parent p) = CHR ''/'' then path_parent p @ path_name p
      else path_parent p @ ''/'' @ path_name p)"

text \<open>
  \<^verbatim>\<open>p.suffix\<close> and \<^verbatim>\<open>p.stem\<close>: the name is cut at its last dot, unless that dot is the
  first or the last character of the name.
\<close>

definition path_suffix :: "path \<Rightarrow> string" where
  "path_suffix p =
     (case rfind CHR ''.'' (path_name p) of
        None \<Rightarrow> []
      | Some i \<Rightarrow> if 0 < i \<and> i + 1 < length (path_name p) then drop i (path_name p) else [])"

definition path_stem :: "path \<Rightarrow> string" where
  "path_stem p =
     (case rfind CHR ''.'' (path_name p) of
        None \<Rightarrow> path_name p
      | Some i \<Rightarrow> if 0 < i \<and> i + 1 < length (path_name p) then take i (path_name p)
                  else path_name p)"

text \<open>
  \<^verbatim>\<open>p.with_suffix(suffix)\<close> for a valid suffix (the source passes \<^verbatim>\<open>'.wav'\<close>): pathlib
  raises \<^verbatim>\<open>ValueError\<close> on a path with an empty name.
\<close>

definition with_suffix :: "path \<Rightarrow> string \<Rightarrow> error + path" where
  "with_suffix p suffix =
     (if path_name p = [] then Inl ValueError
      else Inr (p\<lparr>path_name := path_stem p @ suffix\<rparr>))"

subsection \<open>Sound files and the soundfile library\<close>

text \<open>
  The file system maps the string handed to the operating system to what is stored
  there: a sound file or some other file. Whether a directory exists, permissions and
  the capacity of the disk are outside the model.
\<close>

record sndfile =
  file_format :: string
  file_samplerate :: nat
  file_channels :: nat
  frames :: "sample list list"

datatype fs_entry = Sound sndfile | Other

type_synonym filesystem = "string \<Rightarrow> fs_entry option"

text \<open>
  \<^verbatim>\<open>with sf.SoundFile(name, mode='r+') as wfile: wfile.seek(0, sf.SEEK_END); wfile.write(data)\<close>:
  the rows of the data are appended to the frames of an existing sound file. The
  library raises when the file is not a sound file, when the data is \<^verbatim>\<open>None\<close> (numpy
  turns it into an array of objects of shape (1,)) and when the data has another
  number of channels than the file.
\<close>

definition sf_append :: "filesystem \<Rightarrow> string \<Rightarrow> ndarray option \<Rightarrow> error + filesystem" where
  "sf_append fsys fname data =
     (case fsys fname of
        None \<Rightarrow> Inl LibsndfileError
      | Some Other \<Rightarrow> Inl LibsndfileError
      | Some (Sound f) \<Rightarrow>
          (case data of
             None \<Rightarrow> if file_channels f \<noteq> 1 then Inl ValueError else Inl TypeError
           | Some a \<Rightarrow>
               if ncols a \<noteq> file_channels f then Inl ValueError
               else Inr (fsys(fname \<mapsto> Sound (f\<lparr>frames := frames f @ rows a\<rparr>)))))"

text \<open>
  \<^verbatim>\<open>sf.write(name, data, samplerate, format=fmt)\<close>: opens the file in mode \<^verbatim>\<open>'w'\<close>, so a new
  file replaces whatever was stored under the name. With \<^verbatim>\<open>None\<close> as data the library
  raises \<^verbatim>\<open>IndexError\<close> (it reads \<^verbatim>\<open>shape[1]\<close> of an array without dimensions) before
  it opens anything.
\<close>

definition sf_write ::
  "filesystem \<Rightarrow> string \<Rightarrow> ndarray option \<Rightarrow> nat \<Rightarrow> string \<Rightarrow> error + filesystem" where
  "sf_write fsys fname data rate fmt =
     (case data of
        None \<Rightarrow> Inl IndexError
      | Some a \<Rightarrow>
          Inr (fsys(fname \<mapsto> Sound \<lparr>file_format = fmt, file_samplerate = rate,
                                   file_channels = ncols a, frames = rows a\<rparr>)))"

subsection \<open>The Python runtime and the libraries the recorder runs on\<close>

text \<open>
  What the source reads from its environment and no source file defines:
  \<^verbatim>\<open>sys.getsizeof\<close> of the queue object (the size of the object itself, which does not
  depend on the items it holds), \<^verbatim>\<open>sys.getsizeof\<close> of an array, and the keys of
  \<^verbatim>\<open>sf.available_formats()\<close> in their order.
\<close>

record runtime =
  getsizeof_queue :: int
  getsizeof_ndarray :: "ndarray \<Rightarrow> int"
  available_formats :: "string list"


subsection \<open>The state of the recorder\<close>

datatype thread_state = Unstarted | Running | Finished

text \<open>\<^verbatim>\<open>Thread.start\<close> and \<^verbatim>\<open>Thread.join\<close>: a thread is started once, and joined after its start.\<close>

definition start_thread :: "thread_state \<Rightarrow> error + thread_state" where
  "start_thread t = (if t = Unstarted then Inr Running else Inl RuntimeError)"

definition join_thread :: "thread_state \<Rightarrow> error + thread_state" where
  "join_thread t = (if t = Unstarted then Inl RuntimeError else Inr Finished)"

text \<open>
  \<^verbatim>\<open>__init__\<close> assigns \<^verbatim>\<open>_memory_thread\<close> only when \<^verbatim>\<open>max_memeory >= 0\<close>: the attribute may
  not exist, and reading it then raises \<^verbatim>\<open>AttributeError\<close>.
\<close>

datatype 'a attribute = Unset | Attr 'a

record timer =
  interval :: real
  timer_state :: thread_state

text \<open>The audio stream: \<^verbatim>\<open>sd.InputStream\<close>, or \<^verbatim>\<open>sd.Stream\<close> (\<open>duplex\<close>) for playback.\<close>

record stream =
  duplex :: bool
  active :: bool

datatype printed = PrintError error | PrintDevice

text \<open>
  The attributes of \<^verbatim>\<open>AudioRecorder\<close>, under their names without the leading underscore,
  then the world: the file system, what was printed to the standard output and to the
  standard error, and the warnings issued. The device (\<^verbatim>\<open>device_id\<close>, \<^verbatim>\<open>inputdevice\<close>) is
  read when a stream is opened and nowhere else; opening a stream always succeeds in
  the model. The polling interval \<^verbatim>\<open>_stime\<close> only sets how long the memory thread sleeps
  between two turns.
\<close>

record recorder =
  samplerate :: nat
  soundblock_q :: sound_queue
  channels :: nat
  block_length :: real
  block_size :: nat
  playback :: bool
  max_memory :: int
  mem_size :: int
  memory_thread :: "thread_state option attribute"
  stop_timer_thread :: "timer option"
  partition :: bool
  partition_ctr :: nat
  filepath :: "path option"
  input_stream :: "stream option"
  rec :: bool
  rectime :: real
  prev_ab :: "ndarray option"
  fs :: filesystem
  stdout :: "printed list"
  stderr :: "string list"
  warnings :: "string list"

text \<open>\<^verbatim>\<open>self._default_fformat = ['wav', 'WAV']\<close>\<close>

definition default_fformat :: "string list" where
  "default_fformat = [''wav'', ''WAV'']"

text \<open>
  \<^verbatim>\<open>__init__\<close>, after the device was found: \<open>rate\<close> is \<^verbatim>\<open>int(inputdevice['default_samplerate'])\<close>
  and \<open>max_input_channels\<close> the device's. The block length is a duration, so
  \<^verbatim>\<open>int(samplerate * block_len)\<close> is the floor of a product that is not negative. The file
  system and the output streams are those the program starts with.
\<close>

definition init ::
  "runtime \<Rightarrow> filesystem \<Rightarrow> nat \<Rightarrow> nat \<Rightarrow> real \<Rightarrow> int \<Rightarrow> bool \<Rightarrow> bool \<Rightarrow> recorder" where
  "init rt fsys rate max_input_channels block_len max_memeory part play =
     \<lparr>samplerate = rate,
      soundblock_q = new_queue,
      channels = min max_input_channels 1,
      block_length = block_len,
      block_size = nat \<lfloor>real rate * block_len\<rfloor>,
      playback = play,
      max_memory = max_memeory,
      mem_size = getsizeof_queue rt,
      memory_thread = (if max_memeory \<ge> 0 then Attr None else Unset),
      stop_timer_thread = None,
      partition = part,
      partition_ctr = 0,
      filepath = None,
      input_stream = None,
      rec = False,
      rectime = 0,
      prev_ab = None,
      fs = fsys,
      stdout = [],
      stderr = [],
      warnings = []\<rparr>"

subsection \<open>The capture callbacks\<close>

text \<open>
  \<^verbatim>\<open>_record_callback(indata, frames, time, status)\<close>. The status is the text of the driver's
  flags, empty when no flag is set. \<^verbatim>\<open>indata.copy()\<close> is the value of the block at the
  time of the call: the state holds values, so later writes of the driver to its buffer
  do not reach them.
\<close>

definition record_callback :: "runtime \<Rightarrow> recorder \<Rightarrow> ndarray \<Rightarrow> string \<Rightarrow> recorder" where
  "record_callback rt s indata status =
     (let s1 = (if status \<noteq> [] then s\<lparr>stderr := stderr s @ [status]\<rparr> else s);
          s2 = s1\<lparr>mem_size := mem_size s1 + (getsizeof_ndarray rt indata + nbytes indata)\<rparr>;
          s3 = s2\<lparr>prev_ab := Some indata\<rparr>;
          s4 = s3\<lparr>soundblock_q := put (soundblock_q s3) indata\<rparr>
      in s4\<lparr>rectime := rectime s4 + block_length s4\<rparr>)"

text \<open>
  \<^verbatim>\<open>record_playback_callback\<close>: the same bookkeeping, then \<^verbatim>\<open>outdata[:] = indata\<close>; the
  second component is the output buffer afterwards.
\<close>

definition record_playback_callback ::
  "runtime \<Rightarrow> recorder \<Rightarrow> ndarray \<Rightarrow> ndarray \<Rightarrow> string \<Rightarrow> ndarray result \<times> recorder" where
  "record_playback_callback rt s indata outdata status =
     (let s' = record_callback rt s indata status in
      case set_rows outdata 0 (nrows outdata) indata of
        Inl e \<Rightarrow> (Raise e, s')
      | Inr out \<Rightarrow> (Ok out, s'))"

subsection \<open>\<^verbatim>\<open>_fuse_recording_q\<close>\<close>

text \<open>
  The state of the loop: \<^verbatim>\<open>data_ptr\<close>, \<^verbatim>\<open>audio_np\<close>, the queue and the standard output.
  One turn of the loop takes the oldest block off the queue (the right-hand side is
  evaluated first), assigns it to the rows \<^verbatim>\<open>data_ptr:data_ptr + block_size\<close> and moves
  the pointer by \<^verbatim>\<open>block_size + 1\<close>. When \<^verbatim>\<open>get\<close> or the assignment raises, the exception
  is printed and the turn ends with the pointer and the array as they were.
\<close>

type_synonym fuse_state = "nat \<times> ndarray \<times> sound_queue \<times> printed list"

definition fuse_step :: "nat \<Rightarrow> fuse_state \<Rightarrow> fuse_state" where
  "fuse_step bsize st =
     (case st of (data_ptr, audio_np, q, out) \<Rightarrow>
        (case get_nowait q of
           Inl e \<Rightarrow> (data_ptr, audio_np, q, out @ [PrintError e])
         | Inr (v, q') \<Rightarrow>
             (case set_rows audio_np data_ptr bsize v of
                Inl e \<Rightarrow> (data_ptr, audio_np, q', out @ [PrintError e])
              | Inr audio_np' \<Rightarrow> (data_ptr + (bsize + 1), audio_np', q', out))))"

text \<open>\<^verbatim>\<open>for i in range(nblocks)\<close>\<close>

primrec fuse_loop :: "nat \<Rightarrow> nat \<Rightarrow> fuse_state \<Rightarrow> fuse_state" where
  "fuse_loop bsize 0 st = st"
| "fuse_loop bsize (Suc n) st = fuse_loop bsize n (fuse_step bsize st)"

text \<open>
  The method returns \<^verbatim>\<open>None\<close> on an empty queue. \<^verbatim>\<open>task_done\<close> is called once, after
  the loop and outside its \<^verbatim>\<open>try\<close>.
\<close>

definition fuse_recording_q :: "recorder \<Rightarrow> ndarray option result \<times> recorder" where
  "fuse_recording_q s =
     (if \<not> empty_q (soundblock_q s) then
        (let nblocks = qsize (soundblock_q s);
             audio_np = np_zeros ((block_size s + 1) * nblocks) (channels s)
         in case fuse_loop (block_size s) nblocks (0, audio_np, soundblock_q s, stdout s) of
              (data_ptr, audio_np', q', out') \<Rightarrow>
                (let s' = s\<lparr>soundblock_q := q', stdout := out'\<rparr>
                 in case task_done q' of
                      Inl e \<Rightarrow> (Raise e, s')
                    | Inr q'' \<Rightarrow> (Ok (Some audio_np'), s'\<lparr>soundblock_q := q''\<rparr>)))
      else (Ok None, s))"

subsection \<open>\<^verbatim>\<open>_save\<close>\<close>

text \<open>\<^verbatim>\<open>self.filepath.is_file()\<close>\<close>

definition is_file :: "filesystem \<Rightarrow> path \<Rightarrow> bool" where
  "is_file fsys p = (fsys (str_path p) \<noteq> None)"

text \<open>
  Lines 173 to 179: the name of the file to write and the write itself. With
  partitioning the name is \<^verbatim>\<open>str(parent) + stem + '(ctr)' + suffix\<close> and the counter
  grows by one before the write.
\<close>

definition partition_name :: "path \<Rightarrow> nat \<Rightarrow> string" where
  "partition_name p ctr =
     path_parent p @ path_stem p @ (''('' @ str_nat ctr @ '')'') @ path_suffix p"

definition write_file :: "recorder \<Rightarrow> path \<Rightarrow> string \<Rightarrow> ndarray option \<Rightarrow> unit result \<times> recorder" where
  "write_file s p fmt audio_data =
     (let (fp, s') =
            (if partition s
             then (partition_name p (partition_ctr s), s\<lparr>partition_ctr := partition_ctr s + 1\<rparr>)
             else (str_path p, s))
      in case sf_write (fs s') fp audio_data (samplerate s') fmt of
           Inl e \<Rightarrow> (Raise e, s')
         | Inr fsys \<Rightarrow> (Ok (), s'\<lparr>fs := fsys\<rparr>))"

text \<open>
  Lines 158 to 163: the suffix without its dot, case-folded, and the first key of the
  available formats that folds to it.
\<close>

definition folded_suffix :: "path \<Rightarrow> string" where
  "folded_suffix p = casefold (last (split_on CHR ''.'' (path_suffix p)))"

definition find_format :: "runtime \<Rightarrow> string \<Rightarrow> string option" where
  "find_format rt suffix = find (\<lambda>key. casefold key = suffix) (available_formats rt)"

text \<open>
  The whole method. In the fallback (lines 164 to 172) the source means to raise
  \<^verbatim>\<open>IOError\<close>, but builds the message with \<^verbatim>\<open>'... {sf} ...'.format(str(self.filepath))\<close>:
  the field \<^verbatim>\<open>{sf}\<close> is named and the argument is positional, so \<^verbatim>\<open>format\<close> raises
  \<^verbatim>\<open>KeyError\<close> and the \<^verbatim>\<open>IOError\<close> is never made. The warning is recorded by the suffix
  it names.
\<close>

definition save :: "runtime \<Rightarrow> recorder \<Rightarrow> ndarray option \<Rightarrow> unit result \<times> recorder" where
  "save rt s audio_data =
     (case filepath s of
        None \<Rightarrow> (Ok (), s)
      | Some p \<Rightarrow>
          if is_file (fs s) p \<and> \<not> partition s then
            (case sf_append (fs s) (str_path p) audio_data of
               Inl e \<Rightarrow> (Raise e, s)
             | Inr fsys \<Rightarrow> (Ok (), s\<lparr>fs := fsys\<rparr>))
          else
            (case find_format rt (folded_suffix p) of
               Some avaiable_format \<Rightarrow> write_file s p avaiable_format audio_data
             | None \<Rightarrow>
                 (let s1 = s\<lparr>warnings := warnings s @ [folded_suffix p]\<rparr> in
                  case with_suffix p (''.'' @ default_fformat ! 0) of
                    Inl e \<Rightarrow> (Raise e, s1)
                  | Inr p' \<Rightarrow>
                      (let s2 = s1\<lparr>filepath := Some p'\<rparr> in
                       if is_file (fs s2) p' then (Raise KeyError, s2)
                       else write_file s2 p' (default_fformat ! 1) audio_data))))"

subsection \<open>\<^verbatim>\<open>_manage_record\<close>\<close>

definition manage_record :: "runtime \<Rightarrow> recorder \<Rightarrow> bool \<Rightarrow> bool result \<times> recorder" where
  "manage_record rt s now =
     (if mem_size s \<ge> max_memory s \<or> now then
        (case fuse_recording_q s of
           (Raise e, s1) \<Rightarrow> (Raise e, s1)
         | (Ok audio_data, s1) \<Rightarrow>
             (case save rt s1 audio_data of
                (Raise e, s2) \<Rightarrow> (Raise e, s2)
              | (Ok u, s2) \<Rightarrow> (Ok True, s2\<lparr>mem_size := getsizeof_queue rt\<rparr>)))
      else (Ok False, s))"

subsection \<open>\<^verbatim>\<open>start_recording\<close> and \<^verbatim>\<open>stop_recording\<close>\<close>

text \<open>
  \<^verbatim>\<open>start_recording(filepath, max_time)\<close>. The attribute \<^verbatim>\<open>_memory_thread\<close> is read
  after the stream was started; when \<^verbatim>\<open>__init__\<close> did not create it the read raises.
\<close>

definition start_recording :: "recorder \<Rightarrow> path option \<Rightarrow> real \<Rightarrow> unit result \<times> recorder" where
  "start_recording s fpath max_time =
     (if rec s then (Ok (), s)
      else
        (let s1 = s\<lparr>filepath := fpath\<rparr>;
             s2 = s1\<lparr>rec := True\<rparr>;
             s3 = s2\<lparr>rectime := rectime s2 + 0\<rparr>;
             s4 = (if \<not> playback s3
                   then s3\<lparr>stdout := stdout s3 @ [PrintDevice],
                           input_stream := Some \<lparr>duplex = False, active = False\<rparr>\<rparr>
                   else s3\<lparr>input_stream := Some \<lparr>duplex = True, active = False\<rparr>\<rparr>);
             s5 = (if max_time > 0
                   then s4\<lparr>stop_timer_thread :=
                             Some \<lparr>interval = max_time, timer_state = Unstarted\<rparr>\<rparr>
                   else s4);
             s6 = (if max_memory s5 \<ge> 0 then s5\<lparr>memory_thread := Attr (Some Unstarted)\<rparr>
                   else s5);
             s7 = s6\<lparr>input_stream := map_option (\<lambda>st. st\<lparr>active := True\<rparr>) (input_stream s6)\<rparr>
         in case memory_thread s7 of
              Unset \<Rightarrow> (Raise AttributeError, s7)
            | Attr mt \<Rightarrow>
                (case (case mt of None \<Rightarrow> Inr None
                               | Some t \<Rightarrow> map_sum id Some (start_thread t)) of
                   Inl e \<Rightarrow> (Raise e, s7)
                 | Inr mt' \<Rightarrow>
                     (let s8 = s7\<lparr>memory_thread := Attr mt'\<rparr>
                      in case stop_timer_thread s8 of
                           None \<Rightarrow> (Ok (), s8)
                         | Some t \<Rightarrow>
                             (case start_thread (timer_state t) of
                                Inl e \<Rightarrow> (Raise e, s8)
                              | Inr ts \<Rightarrow>
                                  (Ok (), s8\<lparr>stop_timer_thread :=
                                               Some (t\<lparr>timer_state := ts\<rparr>)\<rparr>))))))"

text \<open>
  \<^verbatim>\<open>self._memory_thread.join()\<close>: the loop of the memory thread ends because \<^verbatim>\<open>_rec\<close> is
  false by then; its turns are calls of \<open>manage_record\<close> before the stop.
\<close>

definition join_memory_thread :: "recorder \<Rightarrow> error + recorder" where
  "join_memory_thread s =
     (case memory_thread s of
        Unset \<Rightarrow> Inl AttributeError
      | Attr None \<Rightarrow> Inl AttributeError
      | Attr (Some t) \<Rightarrow>
          (case join_thread t of
             Inl e \<Rightarrow> Inl e
           | Inr t' \<Rightarrow> Inr (s\<lparr>memory_thread := Attr (Some t')\<rparr>)))"

definition stop_recording :: "runtime \<Rightarrow> recorder \<Rightarrow> unit result \<times> recorder" where
  "stop_recording rt s =
     (if rec s then
        (let s1 = s\<lparr>rec := False\<rparr>;
             s2 = (case stop_timer_thread s1 of
                     None \<Rightarrow> s1
                   | Some t \<Rightarrow> s1\<lparr>stop_timer_thread := None\<rparr>)
         in case input_stream s2 of
              None \<Rightarrow> (Raise AttributeError, s2)
            | Some st \<Rightarrow>
                (let s3 = s2\<lparr>input_stream := Some (st\<lparr>active := False\<rparr>)\<rparr>
                 in case (if max_memory s3 \<ge> 0 then join_memory_thread s3 else Inr s3) of
                      Inl e \<Rightarrow> (Raise e, s3)
                    | Inr s4 \<Rightarrow>
                        (case manage_record rt s4 True of
                           (Raise e, s5) \<Rightarrow> (Raise e, s5)
                         | (Ok b, s5) \<Rightarrow> (Ok (), s5\<lparr>prev_ab := None, rectime := 0\<rparr>))))
      else (Ok (), s))"

subsection \<open>The queries\<close>

definition is_recording :: "recorder \<Rightarrow> bool" where
  "is_recording s = rec s"



definition get_live_audio :: "recorder \<Rightarrow> ndarray option" where
  "get_live_audio s =
     (if qsize (soundblock_q s) > 0 then Some (last (items (soundblock_q s))) else None)"

subsection \<open>The states a recorder can reach\<close>

text \<open>
  A recorder is constructed, and then its methods and the callbacks of the driver run
  one after the other, in any order and with any arguments. A turn of the memory
  thread is \<open>manage_record\<close> without the forced flag. The state an exception leaves
  behind is reached as well.
\<close>

inductive reachable :: "runtime \<Rightarrow> recorder \<Rightarrow> bool" for rt :: runtime where
  r_init: "reachable rt (init rt fsys rate chans block_len max_memeory part play)"
| r_callback: "reachable rt s \<Longrightarrow> reachable rt (record_callback rt s indata status)"
| r_playback:
    "reachable rt s \<Longrightarrow> reachable rt (snd (record_playback_callback rt s indata outdata status))"
| r_tick: "reachable rt s \<Longrightarrow> reachable rt (snd (manage_record rt s False))"
| r_start: "reachable rt s \<Longrightarrow> reachable rt (snd (start_recording s fpath max_time))"
| r_stop: "reachable rt s \<Longrightarrow> reachable rt (snd (stop_recording rt s))"

subsection \<open>What the fused buffer holds\<close>

text \<open>
  The rows a block takes in the buffer of \<open>fuse_recording_q\<close>: a block that can be
  assigned takes its \<open>bsize\<close> rows and the one row the pointer steps over; a block whose
  assignment raises takes none. \<open>skipped\<close> are the blocks of the second kind, and
  \<open>fused_rows\<close> is the buffer for a queue: the rows of the blocks in their order, then
  zero rows for the space the skipped blocks were allotted.
\<close>

definition placed :: "nat \<Rightarrow> nat \<Rightarrow> ndarray \<Rightarrow> sample list list" where
  "placed bsize ch v =
     (case broadcast_to bsize ch v of None \<Rightarrow> [] | Some rs \<Rightarrow> rs @ [zero_row ch])"

definition skipped :: "nat \<Rightarrow> nat \<Rightarrow> ndarray list \<Rightarrow> ndarray list" where
  "skipped bsize ch vs = filter (\<lambda>v. broadcast_to bsize ch v = None) vs"

definition fused_rows :: "nat \<Rightarrow> nat \<Rightarrow> ndarray list \<Rightarrow> sample list list" where
  "fused_rows bsize ch vs =
     concat (map (placed bsize ch) vs)
     @ replicate ((bsize + 1) * length (skipped bsize ch vs)) (zero_row ch)"


subsection \<open>Concrete recorders\<close>

text \<open>
  A runtime, blocks of two frames and one channel, a block of three frames, and
  recorders built by the constructor and the methods, for the evaluations below. The
  device delivers 40 samples a second and the block length is a twentieth of a second,
  so a block has two frames.
\<close>

definition ex_rt :: runtime where
  "ex_rt = \<lparr>getsizeof_queue = 56, getsizeof_ndarray = (\<lambda>a. 128),
            available_formats = [''WAV'', ''FLAC'']\<rparr>"

definition ex_blk1 :: ndarray where "ex_blk1 = NDArray 1 [[1], [2]]"
definition ex_blk2 :: ndarray where "ex_blk2 = NDArray 1 [[3], [4]]"
definition ex_bad :: ndarray where "ex_bad = NDArray 1 [[9], [9], [9]]"

definition ex_idle :: recorder where
  "ex_idle = init ex_rt Map.empty 40 1 (1 / 20) 1000 False False"

definition ex_two :: recorder where
  "ex_two = record_callback ex_rt (record_callback ex_rt ex_idle ex_blk1 []) ex_blk2 []"

definition ex_skip :: recorder where
  "ex_skip = record_callback ex_rt (record_callback ex_rt ex_idle ex_bad []) ex_blk1 []"



text \<open>
  A recorder that is recording without a target, one that records to \<^verbatim>\<open>out.xyz\<close> in a
  directory that already holds \<^verbatim>\<open>out.wav\<close> (with a threshold of 100 bytes), each with
  one block captured.
\<close>

definition ex_rec :: recorder where
  "ex_rec = record_callback ex_rt (snd (start_recording ex_idle None (- 1))) ex_blk1 []"

definition ex_fs_wav :: filesystem where
  "ex_fs_wav = [''out.wav'' \<mapsto> Other]"

definition ex_clash :: recorder where
  "ex_clash =
     record_callback ex_rt
       (snd (start_recording (init ex_rt ex_fs_wav 40 1 (1 / 20) 100 False False)
               (Some \<lparr>path_parent = ''.'', path_name = ''out.xyz''\<rparr>) (- 1)))
       ex_blk1 []"

text \<open>
  A recorder with partitioning that records to \<^verbatim>\<open>/tmp/out.wav\<close>, with one block captured.
\<close>

definition ex_part :: recorder where
  "ex_part =
     record_callback ex_rt
       (snd (start_recording (init ex_rt Map.empty 40 1 (1 / 20) 100 True False)
               (Some \<lparr>path_parent = ''/tmp'', path_name = ''out.wav''\<rparr>) (- 1)))
       ex_blk1 []"



section \<open>Properties\<close>

lemmas ex_defs = ex_rt_def ex_blk1_def ex_blk2_def ex_bad_def ex_idle_def ex_two_def ex_skip_def
lemmas q_defs = put_def new_queue_def empty_q_def qsize_def get_nowait_def task_done_def
lemmas np_defs = np_zeros_def zero_row_def set_rows_def broadcast_to_def nrows_def stretch_row_def nbytes_def


subsection \<open>The loop of \<open>fuse_recording_q\<close>\<close>

lemma broadcast_to_length: "broadcast_to r c v = Some rs \<Longrightarrow> length rs = r"
  by (auto simp: broadcast_to_def nrows_def split: if_splits list.splits)

lemma set_rows_inside:
  assumes "length done = p" and "n \<le> m"
  shows "set_rows (NDArray ch (done @ replicate m z)) p n v =
           (case broadcast_to n ch v of
              None \<Rightarrow> Inl ValueError
            | Some rs \<Rightarrow> Inr (NDArray ch (done @ rs @ replicate (m - n) z)))"
  using assms by (simp add: set_rows_def nrows_def min_def split: option.splits)

lemma fuse_loop_layout:
  assumes "items q = vs" and "length done = p" and "(bsize + 1) * length vs \<le> m"
  shows "fuse_loop bsize (length vs) (p, NDArray ch (done @ replicate m (zero_row ch)), q, out) =
           (p + (bsize + 1) * (length vs - length (skipped bsize ch vs)),
            NDArray ch (done @ concat (map (placed bsize ch) vs)
                        @ replicate (m - (bsize + 1) * (length vs - length (skipped bsize ch vs)))
                            (zero_row ch)),
            q\<lparr>items := []\<rparr>,
            out @ map (\<lambda>v. PrintError ValueError) (skipped bsize ch vs))"
  using assms
proof (induction vs arbitrary: q "done" p m out)
  case Nil
  then show ?case by (simp add: skipped_def)
next
  case (Cons v vs)
  have le: "length (skipped bsize ch vs) \<le> length vs"
    by (simp add: skipped_def)
  have get: "get_nowait q = Inr (v, q\<lparr>items := vs\<rparr>)"
    using Cons.prems(1) by (simp add: get_nowait_def)
  have room: "bsize \<le> m" "(bsize + 1) * length vs \<le> m - (bsize + 1)" "(bsize + 1) * length vs \<le> m"
    using Cons.prems(3) by simp_all
  show ?case
  proof (cases "broadcast_to bsize ch v")
    case None
    have step: "fuse_step bsize (p, NDArray ch (done @ replicate m (zero_row ch)), q, out) =
                  (p, NDArray ch (done @ replicate m (zero_row ch)), q\<lparr>items := vs\<rparr>,
                   out @ [PrintError ValueError])"
      using get None Cons.prems(2) room(1)
      by (simp add: fuse_step_def set_rows_inside)
    have ih: "fuse_loop bsize (length vs)
                (p, NDArray ch (done @ replicate m (zero_row ch)), q\<lparr>items := vs\<rparr>,
                 out @ [PrintError ValueError]) = 
              (p + (bsize + 1) * (length vs - length (skipped bsize ch vs)),
               NDArray ch (done @ concat (map (placed bsize ch) vs)
                        @ replicate (m - (bsize + 1) * (length vs - length (skipped bsize ch vs)))
                            (zero_row ch)),
               q\<lparr>items := vs\<rparr>\<lparr>items := []\<rparr>,
               (out @ [PrintError ValueError]) @ map (\<lambda>v. PrintError ValueError) (skipped bsize ch vs))"
      by (rule Cons.IH) (use Cons.prems(2) room in simp_all)
    have pl: "placed bsize ch v = []" using None by (simp add: placed_def)
    have sk: "skipped bsize ch (v # vs) = v # skipped bsize ch vs"
      using None by (simp add: skipped_def)
    have "fuse_loop bsize (length (v # vs)) (p, NDArray ch (done @ replicate m (zero_row ch)), q, out) =
          fuse_loop bsize (length vs)
            (fuse_step bsize (p, NDArray ch (done @ replicate m (zero_row ch)), q, out))"
      by simp
    also note step
    also note ih
    finally show ?thesis
      using le by (simp add: sk pl Suc_diff_le)
  next
    case (Some rs)
    have len: "length rs = bsize" using Some by (rule broadcast_to_length)
    have arr: "done @ rs @ replicate (m - bsize) (zero_row ch) =
               (done @ rs @ [zero_row ch]) @ replicate (m - (bsize + 1)) (zero_row ch)"
    proof -
      have "m - bsize = Suc (m - (bsize + 1))" using Cons.prems(3) by simp
      then show ?thesis by simp
    qed
    have step: "fuse_step bsize (p, NDArray ch (done @ replicate m (zero_row ch)), q, out) =
                  (p + (bsize + 1),
                   NDArray ch ((done @ rs @ [zero_row ch]) @ replicate (m - (bsize + 1)) (zero_row ch)),
                   q\<lparr>items := vs\<rparr>, out)"
      using get Some Cons.prems(2) room(1)
      by (simp add: fuse_step_def set_rows_inside arr del: append_assoc)
    have ih: "fuse_loop bsize (length vs)
                (p + (bsize + 1),
                 NDArray ch ((done @ rs @ [zero_row ch]) @ replicate (m - (bsize + 1)) (zero_row ch)),
                 q\<lparr>items := vs\<rparr>, out) =
              ((p + (bsize + 1)) + (bsize + 1) * (length vs - length (skipped bsize ch vs)),
               NDArray ch ((done @ rs @ [zero_row ch]) @ concat (map (placed bsize ch) vs)
                        @ replicate ((m - (bsize + 1)) - (bsize + 1) * (length vs - length (skipped bsize ch vs)))
                            (zero_row ch)),
               q\<lparr>items := vs\<rparr>\<lparr>items := []\<rparr>,
               out @ map (\<lambda>v. PrintError ValueError) (skipped bsize ch vs))"
      by (rule Cons.IH) (use Cons.prems(2) room len in simp_all)
    have sk: "skipped bsize ch (v # vs) = skipped bsize ch vs"
      using Some by (simp add: skipped_def)
    have cnt: "length (v # vs) - length (skipped bsize ch vs) = Suc (length vs - length (skipped bsize ch vs))"
      using le by simp
    have pl: "placed bsize ch v = rs @ [zero_row ch]" using Some by (simp add: placed_def)
    have "fuse_loop bsize (length (v # vs)) (p, NDArray ch (done @ replicate m (zero_row ch)), q, out) =
          fuse_loop bsize (length vs)
            (fuse_step bsize (p, NDArray ch (done @ replicate m (zero_row ch)), q, out))"
      by simp
    also note step
    also note ih
    finally show ?thesis
      unfolding sk cnt by (simp add: pl)
  qed
qed


lemma length_placed:
  "length (concat (map (placed bsize ch) vs)) = (bsize + 1) * (length vs - length (skipped bsize ch vs))"
proof (induction vs)
  case Nil
  then show ?case by simp
next
  case (Cons v vs)
  have le: "length (skipped bsize ch vs) \<le> length vs" by (simp add: skipped_def)
  show ?case
  proof (cases "broadcast_to bsize ch v")
    case None
    then show ?thesis using Cons le by (simp add: placed_def skipped_def)
  next
    case (Some rs)
    then have "length rs = bsize" by (rule broadcast_to_length)
    then show ?thesis using Cons le Some by (simp add: placed_def skipped_def Suc_diff_le)
  qed
qed

lemma length_fused_rows: "length (fused_rows bsize ch vs) = (bsize + 1) * length vs"
proof -
  have le: "length (skipped bsize ch vs) \<le> length vs" by (simp add: skipped_def)
  have "(bsize + 1) * (length vs - length (skipped bsize ch vs))
          + (bsize + 1) * length (skipped bsize ch vs) = (bsize + 1) * length vs"
    using le by (simp add: distrib_left [symmetric] del: mult_Suc)
  then show ?thesis by (simp add: fused_rows_def length_placed)
qed

lemma fuse_recording_q_nonempty:
  assumes "items (soundblock_q s) \<noteq> []"
  shows "fuse_recording_q s =
           (let vs = items (soundblock_q s);
                s' = s\<lparr>soundblock_q := (soundblock_q s)\<lparr>items := []\<rparr>,
                       stdout := stdout s @ map (\<lambda>v. PrintError ValueError)
                                              (skipped (block_size s) (channels s) vs)\<rparr>
            in case task_done ((soundblock_q s)\<lparr>items := []\<rparr>) of
                 Inl e \<Rightarrow> (Raise e, s')
               | Inr q'' \<Rightarrow>
                   (Ok (Some (NDArray (channels s) (fused_rows (block_size s) (channels s) vs))),
                    s'\<lparr>soundblock_q := q''\<rparr>))"
proof -
  let ?vs = "items (soundblock_q s)"
  let ?bs = "block_size s"
  let ?ch = "channels s"
  have le: "length (skipped ?bs ?ch ?vs) \<le> length ?vs" by (simp add: skipped_def)
  have loop: "fuse_loop ?bs (length ?vs)
                (0, NDArray ?ch ([] @ replicate ((?bs + 1) * length ?vs) (zero_row ?ch)),
                 soundblock_q s, stdout s) =
              (0 + (?bs + 1) * (length ?vs - length (skipped ?bs ?ch ?vs)),
               NDArray ?ch ([] @ concat (map (placed ?bs ?ch) ?vs)
                    @ replicate ((?bs + 1) * length ?vs
                                  - (?bs + 1) * (length ?vs - length (skipped ?bs ?ch ?vs)))
                        (zero_row ?ch)),
               (soundblock_q s)\<lparr>items := []\<rparr>,
               stdout s @ map (\<lambda>v. PrintError ValueError) (skipped ?bs ?ch ?vs))"
    by (rule fuse_loop_layout) simp_all
  have rest: "(?bs + 1) * length ?vs - (?bs + 1) * (length ?vs - length (skipped ?bs ?ch ?vs))
                = (?bs + 1) * length (skipped ?bs ?ch ?vs)"
    using le by (simp add: diff_mult_distrib2 [symmetric] del: mult_Suc)
  have loop': "fuse_loop ?bs (length ?vs)
                (0, np_zeros ((?bs + 1) * length ?vs) ?ch, soundblock_q s, stdout s) =
              ((?bs + 1) * (length ?vs - length (skipped ?bs ?ch ?vs)),
               NDArray ?ch (fused_rows ?bs ?ch ?vs),
               (soundblock_q s)\<lparr>items := []\<rparr>,
               stdout s @ map (\<lambda>v. PrintError ValueError) (skipped ?bs ?ch ?vs))"
    using loop unfolding rest by (simp add: np_zeros_def fused_rows_def)
  show ?thesis
    using assms unfolding fuse_recording_q_def empty_q_def qsize_def Let_def loop'
    by (simp split: sum.splits)
qed


text \<open>
  Claim C10. When the assignment of a block raises, the block is taken off the queue
  and printed, and the pointer stays: the buffer holds the rows of the other blocks in
  their order, each followed by the one row the pointer steps over, so every block
  after a skipped one lies \<open>block_size + 1\<close> rows earlier than its place in the queue.
  The buffer keeps the \<open>(block_size + 1) * N\<close> rows allotted for the \<open>N\<close> blocks of
  the queue, and the rows at its end that no block filled are zero.
\<close>

theorem fuse_recording_q_skips_failed_blocks:
  assumes "items (soundblock_q s) \<noteq> []" and "unfinished_tasks (soundblock_q s) \<noteq> 0"
  shows "fst (fuse_recording_q s) =
           Ok (Some (NDArray (channels s)
                 (fused_rows (block_size s) (channels s) (items (soundblock_q s)))))
         \<and> length (fused_rows (block_size s) (channels s) (items (soundblock_q s))) =
             (block_size s + 1) * length (items (soundblock_q s))
         \<and> items (soundblock_q (snd (fuse_recording_q s))) = []
         \<and> stdout (snd (fuse_recording_q s)) =
             stdout s @ map (\<lambda>v. PrintError ValueError)
                          (skipped (block_size s) (channels s) (items (soundblock_q s)))"
  using assms
  by (simp add: fuse_recording_q_nonempty length_fused_rows task_done_def Let_def)

theorem fuse_recording_q_skips_failed_blocks_witness:
  "items (soundblock_q ex_skip) = [NDArray 1 [[9], [9], [9]], NDArray 1 [[1], [2]]]
   \<and> unfinished_tasks (soundblock_q ex_skip) \<noteq> 0
   \<and> block_size ex_skip = 2
   \<and> fst (fuse_recording_q ex_skip) = Ok (Some (NDArray 1 [[1], [2], [0], [0], [0], [0]]))
   \<and> stdout (snd (fuse_recording_q ex_skip)) = [PrintError ValueError]"
proof -
  have its: "items (soundblock_q ex_skip) = [NDArray 1 [[9], [9], [9]], NDArray 1 [[1], [2]]]"
    and bs: "block_size ex_skip = 2" and ch: "channels ex_skip = 1"
    and out: "stdout ex_skip = []"
    by (simp_all add: record_callback_def init_def ex_defs q_defs Let_def)
  have h1: "items (soundblock_q ex_skip) \<noteq> []" by (simp add: its)
  have h2: "unfinished_tasks (soundblock_q ex_skip) \<noteq> 0"
    by (simp add: record_callback_def init_def ex_defs q_defs Let_def)
  have rows: "fused_rows 2 1 [NDArray 1 [[9], [9], [9]], NDArray 1 [[1], [2]]] =
                [[1], [2], [0], [0], [0], [0]]"
    by (simp add: fused_rows_def placed_def skipped_def np_defs numeral_eq_Suc)
  have sk: "skipped 2 1 [NDArray 1 [[9], [9], [9]], NDArray 1 [[1], [2]]] = [NDArray 1 [[9], [9], [9]]]"
    by (simp add: skipped_def np_defs)
  show ?thesis
    using fuse_recording_q_skips_failed_blocks [OF h1 h2] h2 rows sk
    by (simp add: its bs ch out)
qed

text \<open>
  When every block of the queue has the shape \<open>(block_size, channels)\<close>, the buffer is
  the blocks in their order, each followed by one zero row.
\<close>

lemma fused_rows_well_shaped:
  assumes "\<forall>v \<in> set vs. nrows v = bsize \<and> ncols v = ch"
  shows "fused_rows bsize ch vs = concat (map (\<lambda>v. rows v @ [zero_row ch]) vs)"
proof -
  have fit: "broadcast_to bsize ch v = Some (rows v)" if "v \<in> set vs" for v
  proof -
    have "stretch_row ch ch = (\<lambda>row. row)" by (rule ext) (simp add: stretch_row_def)
    then show ?thesis using assms that by (simp add: broadcast_to_def)
  qed
  have "skipped bsize ch vs = []"
    using fit by (simp add: skipped_def filter_empty_conv)
  moreover have "map (placed bsize ch) vs = map (\<lambda>v. rows v @ [zero_row ch]) vs"
    using fit by (simp add: placed_def)
  ultimately show ?thesis by (simp only: fused_rows_def) simp
qed

text \<open>
  Claim C1. The fused buffer is not the concatenation of the blocks: the pointer moves
  by \<open>block_size + 1\<close> after a block of \<open>block_size\<close> rows, so a zero row follows every
  block. Two queued blocks \<open>[[1], [2]]\<close> and \<open>[[3], [4]]\<close> give six rows, not four.
\<close>

theorem fuse_recording_q_gap:
  "fst (fuse_recording_q ex_two) = Ok (Some (NDArray 1 [[1], [2], [0], [3], [4], [0]]))
   \<and> items (soundblock_q ex_two) = [NDArray 1 [[1], [2]], NDArray 1 [[3], [4]]]
   \<and> block_size ex_two = 2 \<and> channels ex_two = 1
   \<and> fst (fuse_recording_q ex_two) \<noteq> Ok (Some (NDArray 1 [[1], [2], [3], [4]]))"
  by (simp add: fuse_recording_q_def record_callback_def init_def ex_defs q_defs np_defs
        fuse_step_def Let_def)

subsection \<open>What \<open>save\<close> and \<open>fuse_recording_q\<close> leave alone\<close>


lemma save_frame:
  "snd (save rt s d) =
     s\<lparr>partition_ctr := partition_ctr (snd (save rt s d)),
       filepath := filepath (snd (save rt s d)),
       fs := fs (snd (save rt s d)),
       warnings := warnings (snd (save rt s d))\<rparr>"
  by (simp add: save_def write_file_def Let_def split: option.splits sum.splits)

lemma fuse_frame:
  "snd (fuse_recording_q s) =
     s\<lparr>soundblock_q := soundblock_q (snd (fuse_recording_q s)),
       stdout := stdout (snd (fuse_recording_q s))\<rparr>"
proof (cases "items (soundblock_q s) = []")
  case True
  then show ?thesis by (simp add: fuse_recording_q_def empty_q_def qsize_def)
next
  case False
  then show ?thesis
    by (simp add: fuse_recording_q_nonempty Let_def split: sum.splits)
qed

lemma fuse_drains: "items (soundblock_q (snd (fuse_recording_q s))) = []"
proof (cases "items (soundblock_q s) = []")
  case True
  then show ?thesis by (simp add: fuse_recording_q_def empty_q_def qsize_def)
next
  case False
  then show ?thesis
    by (simp add: fuse_recording_q_nonempty Let_def task_done_def split: sum.splits)
qed

lemma save_keeps:
  "mem_size (snd (save rt s d)) = mem_size s"
  "soundblock_q (snd (save rt s d)) = soundblock_q s"
  "rec (snd (save rt s d)) = rec s"
  "rectime (snd (save rt s d)) = rectime s"
  "prev_ab (snd (save rt s d)) = prev_ab s"
  by (subst save_frame, simp)+

lemma fuse_keeps:
  "mem_size (snd (fuse_recording_q s)) = mem_size s"
  "rec (snd (fuse_recording_q s)) = rec s"
  "rectime (snd (fuse_recording_q s)) = rectime s"
  "prev_ab (snd (fuse_recording_q s)) = prev_ab s"
  "partition_ctr (snd (fuse_recording_q s)) = partition_ctr s"
  "partition (snd (fuse_recording_q s)) = partition s"
  "filepath (snd (fuse_recording_q s)) = filepath s"
  by (subst fuse_frame, simp)+

subsection \<open>The capture callback\<close>






subsection \<open>Starting and stopping\<close>

text \<open>
  Claim C8. \<open>start_recording\<close> on a recorder that is recording and \<open>stop_recording\<close> on
  one that is not return without an exception and leave the whole state as it was.
\<close>

theorem start_stop_noop:
  "(is_recording s \<longrightarrow> start_recording s fpath max_time = (Ok (), s))
   \<and> (\<not> is_recording s \<longrightarrow> stop_recording rt s = (Ok (), s))"
  by (simp add: is_recording_def start_recording_def stop_recording_def)

theorem start_stop_noop_witness:
  "is_recording ex_rec \<and> \<not> is_recording ex_idle
   \<and> start_recording ex_rec (Some \<lparr>path_parent = ''.'', path_name = ''other.wav''\<rparr>) 5 = (Ok (), ex_rec)
   \<and> stop_recording ex_rt ex_idle = (Ok (), ex_idle)"
proof -
  have r: "is_recording ex_rec"
    by (simp add: is_recording_def ex_rec_def record_callback_def start_recording_def Let_def
          start_thread_def ex_idle_def init_def)
  have i: "\<not> is_recording ex_idle"
    by (simp add: is_recording_def ex_idle_def init_def)
  show ?thesis
    using r i
      start_stop_noop [of ex_rec "Some \<lparr>path_parent = ''.'', path_name = ''other.wav''\<rparr>" 5 ex_rt]
      start_stop_noop [of ex_idle None 0 ex_rt]
    by simp
qed

subsection \<open>\<open>manage_record\<close>\<close>

lemma manage_record_cases:
  "manage_record rt s now =
     (if max_memory s \<le> mem_size s \<or> now then
        (case fst (fuse_recording_q s) of
           Raise e \<Rightarrow> (Raise e, snd (fuse_recording_q s))
         | Ok d \<Rightarrow>
             (case fst (save rt (snd (fuse_recording_q s)) d) of
                Raise e \<Rightarrow> (Raise e, snd (save rt (snd (fuse_recording_q s)) d))
              | Ok u \<Rightarrow> (Ok True, (snd (save rt (snd (fuse_recording_q s)) d))
                                       \<lparr>mem_size := getsizeof_queue rt\<rparr>)))
      else (Ok False, s))"
  by (simp add: manage_record_def split: prod.splits result.splits)


lemma manage_record_drains:
  "max_memory s \<le> mem_size s \<or> now \<Longrightarrow> items (soundblock_q (snd (manage_record rt s now))) = []"
  by (auto simp add: manage_record_cases save_keeps fuse_drains split: result.splits)

lemma manage_record_mem:
  "mem_size (snd (manage_record rt s now)) =
     (if fst (manage_record rt s now) = Ok True then getsizeof_queue rt else mem_size s)"
  by (simp add: manage_record_cases save_keeps fuse_keeps split: result.splits)

text \<open>
  Claim C6, amended. \<open>manage_record\<close> returns \<open>False\<close> and leaves the whole state as it
  was when the estimate is below the threshold and the flag is not set. Otherwise it
  never returns \<open>False\<close>: it fuses the queue, which is empty afterwards, and hands the
  buffer to \<open>save\<close>; when neither raises it returns \<open>True\<close> with the estimate at the
  baseline, and when one of them raises, the exception is passed on and the estimate
  keeps its value.
\<close>

theorem manage_record_flush_iff:
  "(\<not> (max_memory s \<le> mem_size s \<or> now) \<longrightarrow> manage_record rt s now = (Ok False, s))
   \<and> ((max_memory s \<le> mem_size s \<or> now) \<longrightarrow>
        fst (manage_record rt s now) \<noteq> Ok False
        \<and> items (soundblock_q (snd (manage_record rt s now))) = []
        \<and> (fst (manage_record rt s now) = Ok True \<longrightarrow>
             mem_size (snd (manage_record rt s now)) = getsizeof_queue rt
             \<and> (\<exists>d. fst (fuse_recording_q s) = Ok d
                    \<and> fst (save rt (snd (fuse_recording_q s)) d) = Ok ()
                    \<and> snd (manage_record rt s now) =
                        (snd (save rt (snd (fuse_recording_q s)) d))
                          \<lparr>mem_size := getsizeof_queue rt\<rparr>))
        \<and> (\<forall>e. fst (manage_record rt s now) = Raise e \<longrightarrow>
             mem_size (snd (manage_record rt s now)) = mem_size s
             \<and> (fst (fuse_recording_q s) = Raise e
                 \<or> (\<exists>d. fst (fuse_recording_q s) = Ok d
                        \<and> fst (save rt (snd (fuse_recording_q s)) d) = Raise e))))"
proof (cases "max_memory s \<le> mem_size s \<or> now")
  case False
  then show ?thesis by (simp add: manage_record_def)
next
  case True
  have a: "fst (manage_record rt s now) \<noteq> Ok False"
    using True by (auto simp add: manage_record_cases split: result.splits)
  have b: "items (soundblock_q (snd (manage_record rt s now))) = []"
    using True by (rule manage_record_drains)
  have c: "fst (manage_record rt s now) = Ok True \<longrightarrow>
             mem_size (snd (manage_record rt s now)) = getsizeof_queue rt
             \<and> (\<exists>d. fst (fuse_recording_q s) = Ok d
                    \<and> fst (save rt (snd (fuse_recording_q s)) d) = Ok ()
                    \<and> snd (manage_record rt s now) =
                        (snd (save rt (snd (fuse_recording_q s)) d))
                          \<lparr>mem_size := getsizeof_queue rt\<rparr>)"
    using True by (auto simp add: manage_record_cases split: result.splits)
  have d: "\<forall>e. fst (manage_record rt s now) = Raise e \<longrightarrow>
             mem_size (snd (manage_record rt s now)) = mem_size s
             \<and> (fst (fuse_recording_q s) = Raise e
                 \<or> (\<exists>d. fst (fuse_recording_q s) = Ok d
                        \<and> fst (save rt (snd (fuse_recording_q s)) d) = Raise e))"
    using True
    by (auto simp add: manage_record_cases save_keeps fuse_keeps split: result.splits)
  show ?thesis using True a b c d by blast
qed

subsection \<open>Evaluating the concrete recorders\<close>

lemmas path_defs = str_path_def path_suffix_def path_stem_def with_suffix_def rfind_def
  folded_suffix_def casefold_def casefold_char_def find_format_def is_file_def
  partition_name_def default_fformat_def digit_char_def
lemmas m_defs = record_callback_def start_recording_def stop_recording_def start_thread_def
  join_thread_def join_memory_thread_def init_def Let_def

lemma ex_clash_fields:
  "rec ex_clash" "mem_size ex_clash = 192" "max_memory ex_clash = 100"
  "items (soundblock_q ex_clash) = [ex_blk1]" "unfinished_tasks (soundblock_q ex_clash) = 1"
  "filepath ex_clash = Some \<lparr>path_parent = ''.'', path_name = ''out.xyz''\<rparr>"
  "partition ex_clash = False" "fs ex_clash = ex_fs_wav" "block_size ex_clash = 2"
  "channels ex_clash = 1" "input_stream ex_clash = Some \<lparr>duplex = False, active = True\<rparr>"
  "memory_thread ex_clash = Attr (Some Running)" "stop_timer_thread ex_clash = None"
  "warnings ex_clash = []"
  by (simp_all add: ex_clash_def m_defs ex_rt_def ex_blk1_def q_defs np_defs)

lemma ex_clash_save:
  "filepath s = Some \<lparr>path_parent = ''.'', path_name = ''out.xyz''\<rparr> \<Longrightarrow>
   \<not> partition s \<Longrightarrow> fs s = ex_fs_wav \<Longrightarrow>
   save ex_rt s d =
     (Raise KeyError,
      s\<lparr>warnings := warnings s @ [''xyz''],
        filepath := Some \<lparr>path_parent = ''.'', path_name = ''out.wav''\<rparr>\<rparr>)"
  by (simp add: save_def path_defs ex_fs_wav_def ex_rt_def Let_def)

text \<open>
  Claim C6 as stated fails where the write raises. The recorder \<open>ex_clash\<close> holds 192
  bytes against a threshold of 100, its target \<^verbatim>\<open>out.xyz\<close> has no supported suffix and
  \<^verbatim>\<open>out.wav\<close> exists: \<open>manage_record\<close> raises instead of returning \<open>True\<close>, the queue is
  drained and the estimate is not reset.
\<close>

theorem manage_record_raises_example:
  "max_memory ex_clash \<le> mem_size ex_clash
   \<and> fst (manage_record ex_rt ex_clash False) = Raise KeyError
   \<and> mem_size (snd (manage_record ex_rt ex_clash False)) = 192
   \<and> getsizeof_queue ex_rt = 56
   \<and> items (soundblock_q ex_clash) = [ex_blk1]
   \<and> items (soundblock_q (snd (manage_record ex_rt ex_clash False))) = []"
proof -
  have ne: "items (soundblock_q ex_clash) \<noteq> []" by (simp add: ex_clash_fields)
  have f: "fst (fuse_recording_q ex_clash) =
             Ok (Some (NDArray 1 (fused_rows 2 1 [ex_blk1])))"
    using fuse_recording_q_nonempty [OF ne]
    by (simp add: ex_clash_fields task_done_def Let_def)
  have k: "filepath (snd (fuse_recording_q ex_clash)) = filepath ex_clash"
    "partition (snd (fuse_recording_q ex_clash)) = partition ex_clash"
    "fs (snd (fuse_recording_q ex_clash)) = fs ex_clash"
    by (subst fuse_frame, simp)+
  have s: "fst (save ex_rt (snd (fuse_recording_q ex_clash)) d) = Raise KeyError" for d
    by (subst ex_clash_save) (simp_all add: k ex_clash_fields)
  have m: "fst (manage_record ex_rt ex_clash False) = Raise KeyError"
    by (simp add: manage_record_cases f s ex_clash_fields)
  have b: "getsizeof_queue ex_rt = 56" by (simp add: ex_rt_def)
  show ?thesis
    by (simp add: m b manage_record_mem manage_record_drains ex_clash_fields)
qed


lemma ex_rec_fields:
  "rec ex_rec" "mem_size ex_rec = 192" "max_memory ex_rec = 1000"
  "items (soundblock_q ex_rec) = [ex_blk1]" "unfinished_tasks (soundblock_q ex_rec) = 1"
  "filepath ex_rec = None" "input_stream ex_rec = Some \<lparr>duplex = False, active = True\<rparr>"
  "memory_thread ex_rec = Attr (Some Running)" "stop_timer_thread ex_rec = None"
  "rectime ex_rec = 1 / 20" "prev_ab ex_rec = Some ex_blk1" "partition_ctr ex_rec = 0"
  by (simp_all add: ex_rec_def ex_idle_def m_defs ex_rt_def ex_blk1_def q_defs np_defs)

lemma save_no_target: "filepath s = None \<Longrightarrow> save rt s d = (Ok (), s)"
  by (simp add: save_def)

lemma fuse_ok:
  "unfinished_tasks (soundblock_q s) \<noteq> 0 \<Longrightarrow> \<exists>d. fst (fuse_recording_q s) = Ok d"
proof (cases "items (soundblock_q s) = []")
  case True
  then show ?thesis by (simp add: fuse_recording_q_def empty_q_def qsize_def)
next
  case False
  assume "unfinished_tasks (soundblock_q s) \<noteq> 0"
  then show ?thesis
    by (simp add: fuse_recording_q_nonempty [OF False] task_done_def Let_def)
qed

lemma ex_rec_flush: "fst (manage_record ex_rt ex_rec True) = Ok True"
proof -
  obtain d where d: "fst (fuse_recording_q ex_rec) = Ok d"
    using fuse_ok [of ex_rec] by (auto simp add: ex_rec_fields)
  have "filepath (snd (fuse_recording_q ex_rec)) = None"
    by (simp add: fuse_keeps ex_rec_fields)
  then have "fst (save ex_rt (snd (fuse_recording_q ex_rec)) d) = Ok ()"
    by (simp add: save_no_target)
  then show ?thesis by (simp add: manage_record_cases d)
qed

theorem manage_record_flush_iff_witness:
  "\<not> (max_memory ex_rec \<le> mem_size ex_rec \<or> False)
   \<and> manage_record ex_rt ex_rec False = (Ok False, ex_rec)
   \<and> fst (manage_record ex_rt ex_rec True) = Ok True
   \<and> mem_size (snd (manage_record ex_rt ex_rec True)) = 56
   \<and> items (soundblock_q ex_rec) = [ex_blk1]
   \<and> items (soundblock_q (snd (manage_record ex_rt ex_rec True))) = []"
proof -
  have below: "\<not> (max_memory ex_rec \<le> mem_size ex_rec \<or> False)"
    by (simp add: ex_rec_fields)
  have b: "getsizeof_queue ex_rt = 56" by (simp add: ex_rt_def)
  show ?thesis
    using below ex_rec_flush b
      manage_record_flush_iff [of ex_rec False ex_rt]
      manage_record_flush_iff [of ex_rec True ex_rt]
    by (simp add: ex_rec_fields)
qed

subsection \<open>\<open>stop_recording\<close> on a recorder that is recording\<close>


lemma timer_cleared:
  "(case stop_timer_thread s of None \<Rightarrow> s | Some t \<Rightarrow> s\<lparr>stop_timer_thread := None\<rparr>)
     = s\<lparr>stop_timer_thread := None\<rparr>"
  by (cases "stop_timer_thread s") simp_all

lemma stop_recording_active:
  assumes "rec s"
  shows "(\<exists>e. fst (stop_recording rt s) = Raise e
              \<and> snd (stop_recording rt s) =
                   s\<lparr>rec := False, stop_timer_thread := None,
                     input_stream := input_stream (snd (stop_recording rt s))\<rparr>)
         \<or> (\<exists>s4. s4 = s\<lparr>rec := False, stop_timer_thread := None,
                         input_stream := input_stream s4, memory_thread := memory_thread s4\<rparr>
                 \<and> stop_recording rt s =
                     (case fst (manage_record rt s4 True) of
                        Raise e \<Rightarrow> (Raise e, snd (manage_record rt s4 True))
                      | Ok b \<Rightarrow> (Ok (), (snd (manage_record rt s4 True))
                                          \<lparr>prev_ab := None, rectime := 0\<rparr>)))"
proof (cases "input_stream s")
  case None
  then show ?thesis
    using assms by (simp add: stop_recording_def Let_def timer_cleared)
next
  case (Some st)
  let ?s3 = "s\<lparr>rec := False, stop_timer_thread := None,
               input_stream := Some (st\<lparr>active := False\<rparr>)\<rparr>"
  have unf: "stop_recording rt s =
      (case (if max_memory s \<ge> 0 then join_memory_thread ?s3 else Inr ?s3) of
         Inl e \<Rightarrow> (Raise e, ?s3)
       | Inr s4 \<Rightarrow>
          (case fst (manage_record rt s4 True) of
             Raise e \<Rightarrow> (Raise e, snd (manage_record rt s4 True))
           | Ok b \<Rightarrow> (Ok (), (snd (manage_record rt s4 True))\<lparr>prev_ab := None, rectime := 0\<rparr>)))"
    using assms Some
    by (simp add: stop_recording_def Let_def timer_cleared case_prod_beta
          split: sum.splits result.splits)
  show ?thesis
  proof (cases "if max_memory s \<ge> 0 then join_memory_thread ?s3 else Inr ?s3")
    case (Inl e)
    then show ?thesis by (simp add: unf)
  next
    case (Inr s4)
    then have "s4 = s\<lparr>rec := False, stop_timer_thread := None,
                       input_stream := input_stream s4, memory_thread := memory_thread s4\<rparr>"
      by (auto simp add: join_memory_thread_def join_thread_def
            split: if_splits attribute.splits option.splits)
    then show ?thesis using Inr unfolding unf by (intro disjI2 exI [of _ s4]) simp
  qed
qed

lemma save_partition_ctr:
  "fst (save rt s d) = Ok () \<Longrightarrow>
     partition_ctr (snd (save rt s d)) =
       partition_ctr s + (if partition s \<and> filepath s \<noteq> None then 1 else 0)"
  by (auto simp add: save_def write_file_def Let_def split: option.splits sum.splits if_splits)

lemma manage_record_partition_ctr:
  "fst (manage_record rt s True) = Ok b \<Longrightarrow>
     partition_ctr (snd (manage_record rt s True)) =
       partition_ctr s + (if partition s \<and> filepath s \<noteq> None then 1 else 0)"
  by (auto simp add: manage_record_cases save_partition_ctr fuse_keeps split: result.splits)


text \<open>
  Claim C5, amended. When \<open>stop_recording\<close> returns on a recorder that is recording, the
  elapsed time is 0 and the last captured block is \<open>None\<close>. The partition counter is not
  reset: it is the counter before the stop, plus one when the final flush wrote a
  partition, and \<open>start_recording\<close> keeps it, so the next session goes on counting.
\<close>

theorem stop_recording_resets:
  assumes "is_recording s" and "fst (stop_recording rt s) = Ok ()"
  shows "rectime (snd (stop_recording rt s)) = 0
         \<and> prev_ab (snd (stop_recording rt s)) = None
         \<and> partition_ctr (snd (stop_recording rt s)) =
             partition_ctr s + (if partition s \<and> filepath s \<noteq> None then 1 else 0)
         \<and> partition_ctr (snd (start_recording (snd (stop_recording rt s)) fpath max_time)) =
             partition_ctr (snd (stop_recording rt s))"
proof -
  have r: "rec s" using assms(1) by (simp add: is_recording_def)
  have start: "partition_ctr (snd (start_recording s' fpath max_time)) = partition_ctr s'" for s'
    by (simp add: start_recording_def Let_def start_thread_def
          split: attribute.splits option.splits sum.splits)
  from stop_recording_active [OF r, of rt] assms(2)
  obtain s4 where s4: "s4 = s\<lparr>rec := False, stop_timer_thread := None,
                      input_stream := input_stream s4, memory_thread := memory_thread s4\<rparr>"
      and st: "stop_recording rt s =
                 (case fst (manage_record rt s4 True) of
                    Raise e \<Rightarrow> (Raise e, snd (manage_record rt s4 True))
                  | Ok b \<Rightarrow> (Ok (), (snd (manage_record rt s4 True))
                                      \<lparr>prev_ab := None, rectime := 0\<rparr>))"
    by auto
  have k: "partition s4 = partition s" "filepath s4 = filepath s" "partition_ctr s4 = partition_ctr s"
    by (subst s4, simp)+
  obtain b where ok: "fst (manage_record rt s4 True) = Ok b"
    using assms(2) by (cases "fst (manage_record rt s4 True)") (simp_all add: st)
  have "partition_ctr (snd (manage_record rt s4 True)) =
          partition_ctr s + (if partition s \<and> filepath s \<noteq> None then 1 else 0)"
    using manage_record_partition_ctr [OF ok] by (simp add: k)
  then show ?thesis
    by (simp add: start) (simp add: st ok)
qed


lemma stop_recording_running:
  assumes "rec s" and "input_stream s = Some st" and "memory_thread s = Attr (Some Running)"
    and "0 \<le> max_memory s"
  shows "stop_recording rt s =
     (case fst (manage_record rt
                  (s\<lparr>rec := False, stop_timer_thread := None,
                     input_stream := Some (st\<lparr>active := False\<rparr>),
                     memory_thread := Attr (Some Finished)\<rparr>) True) of
        Raise e \<Rightarrow>
          (Raise e, snd (manage_record rt
                  (s\<lparr>rec := False, stop_timer_thread := None,
                     input_stream := Some (st\<lparr>active := False\<rparr>),
                     memory_thread := Attr (Some Finished)\<rparr>) True))
      | Ok b \<Rightarrow>
          (Ok (), (snd (manage_record rt
                  (s\<lparr>rec := False, stop_timer_thread := None,
                     input_stream := Some (st\<lparr>active := False\<rparr>),
                     memory_thread := Attr (Some Finished)\<rparr>) True))
                    \<lparr>prev_ab := None, rectime := 0\<rparr>))"
  using assms
  by (simp add: stop_recording_def Let_def timer_cleared case_prod_beta join_memory_thread_def
        join_thread_def split: result.splits)



lemma save_partition_tmp:
  assumes "filepath s = Some \<lparr>path_parent = ''/tmp'', path_name = ''out.wav''\<rparr>"
    and "partition s"
  shows "save ex_rt s (Some a) =
     (Ok (),
      s\<lparr>partition_ctr := partition_ctr s + 1,
        fs := (fs s)(''/tmpout('' @ str_nat (partition_ctr s) @ '').wav'' \<mapsto>
                Sound \<lparr>file_format = ''WAV'', file_samplerate = samplerate s,
                       file_channels = ncols a, frames = rows a\<rparr>)\<rparr>)"
  using assms
  by (simp add: save_def write_file_def sf_write_def path_defs ex_rt_def Let_def)

lemma flush_partition_tmp:
  assumes "items (soundblock_q s) \<noteq> []" and "unfinished_tasks (soundblock_q s) \<noteq> 0"
    and "filepath s = Some \<lparr>path_parent = ''/tmp'', path_name = ''out.wav''\<rparr>"
    and "partition s"
  shows "fst (manage_record ex_rt s True) = Ok True"
proof -
  have d: "fst (fuse_recording_q s) =
             Ok (Some (NDArray (channels s)
                   (fused_rows (block_size s) (channels s) (items (soundblock_q s)))))"
    using assms(2) by (simp add: fuse_recording_q_nonempty [OF assms(1)] task_done_def Let_def)
  have k: "filepath (snd (fuse_recording_q s)) = filepath s"
    "partition (snd (fuse_recording_q s)) = partition s"
    by (subst fuse_frame, simp)+
  have "fst (save ex_rt (snd (fuse_recording_q s))
               (Some (NDArray (channels s)
                   (fused_rows (block_size s) (channels s) (items (soundblock_q s)))))) = Ok ()"
    by (subst save_partition_tmp) (simp_all add: k assms)
  then show ?thesis by (simp add: manage_record_cases d)
qed

lemma ex_part_fields:
  "rec ex_part" "mem_size ex_part = 192" "max_memory ex_part = 100"
  "items (soundblock_q ex_part) = [ex_blk1]" "unfinished_tasks (soundblock_q ex_part) = 1"
  "filepath ex_part = Some \<lparr>path_parent = ''/tmp'', path_name = ''out.wav''\<rparr>"
  "partition ex_part" "fs ex_part = Map.empty" "block_size ex_part = 2"
  "channels ex_part = 1" "input_stream ex_part = Some \<lparr>duplex = False, active = True\<rparr>"
  "memory_thread ex_part = Attr (Some Running)" "stop_timer_thread ex_part = None"
  "partition_ctr ex_part = 0" "samplerate ex_part = 40" "rectime ex_part = 1 / 20"
  "prev_ab ex_part = Some ex_blk1"
  by (simp_all add: ex_part_def m_defs ex_rt_def ex_blk1_def q_defs np_defs)





lemma ex_part_stop: "fst (stop_recording ex_rt ex_part) = Ok ()"
proof -
  have "fst (manage_record ex_rt
          (ex_part\<lparr>rec := False, stop_timer_thread := None,
                   input_stream := Some (\<lparr>duplex = False, active = True\<rparr>\<lparr>active := False\<rparr>),
                   memory_thread := Attr (Some Finished)\<rparr>) True) = Ok True"
    by (rule flush_partition_tmp) (simp_all add: ex_part_fields)
  then show ?thesis
    by (subst stop_recording_running [where st = "\<lparr>duplex = False, active = True\<rparr>"])
       (simp_all add: ex_part_fields)
qed

text \<open>
  Claim C5 as stated fails on \<open>ex_part\<close>: after the stop the partition counter is 1, and
  a new recorder starts with 0.
\<close>

theorem stop_recording_keeps_partition_ctr:
  "is_recording ex_part
   \<and> fst (stop_recording ex_rt ex_part) = Ok ()
   \<and> partition_ctr (snd (stop_recording ex_rt ex_part)) = 1
   \<and> partition_ctr (init ex_rt Map.empty 40 1 (1 / 20) 100 True False) = 0"
proof -
  have r: "rec ex_part" by (simp add: ex_part_fields)
  from stop_recording_active [OF r, of ex_rt] ex_part_stop
  obtain s4 where s4: "s4 = ex_part\<lparr>rec := False, stop_timer_thread := None,
                      input_stream := input_stream s4, memory_thread := memory_thread s4\<rparr>"
      and st: "stop_recording ex_rt ex_part =
                 (case fst (manage_record ex_rt s4 True) of
                    Raise e \<Rightarrow> (Raise e, snd (manage_record ex_rt s4 True))
                  | Ok b \<Rightarrow> (Ok (), (snd (manage_record ex_rt s4 True))
                                      \<lparr>prev_ab := None, rectime := 0\<rparr>))"
    by auto
  have k: "partition s4" "filepath s4 \<noteq> None" "partition_ctr s4 = 0"
    by (subst s4, simp add: ex_part_fields)+
  obtain b where ok: "fst (manage_record ex_rt s4 True) = Ok b"
    using ex_part_stop by (cases "fst (manage_record ex_rt s4 True)") (simp_all add: st)
  have "partition_ctr (snd (manage_record ex_rt s4 True)) = 1"
    using manage_record_partition_ctr [OF ok] k by simp
  then show ?thesis
    by (simp add: is_recording_def ex_part_fields ex_part_stop init_def) (simp add: st ok)
qed

theorem stop_recording_resets_witness:
  "is_recording ex_part
   \<and> fst (stop_recording ex_rt ex_part) = Ok ()
   \<and> rectime ex_part = 1 / 20
   \<and> prev_ab ex_part = Some ex_blk1
   \<and> rectime (snd (stop_recording ex_rt ex_part)) = 0
   \<and> prev_ab (snd (stop_recording ex_rt ex_part)) = None
   \<and> partition_ctr (snd (start_recording (snd (stop_recording ex_rt ex_part)) None 0)) = 1"
proof -
  have h: "is_recording ex_part" by (simp add: is_recording_def ex_part_fields)
  show ?thesis
    using h ex_part_stop stop_recording_resets [OF h ex_part_stop, of None 0]
    by (simp add: ex_part_fields)
qed

text \<open>
  Claim C3. With partitioning and the target \<^verbatim>\<open>/tmp/out.wav\<close>, \<open>save\<close> writes a new file
  named \<^verbatim>\<open>/tmpout(0).wav\<close>: the source joins \<^verbatim>\<open>str(parent)\<close> and the stem without a
  separator, so the file is not the target with the index before the suffix
  (\<^verbatim>\<open>/tmp/out(0).wav\<close>), and it lies in another directory.
\<close>

theorem save_partition_name_example:
  "filepath ex_part = Some \<lparr>path_parent = ''/tmp'', path_name = ''out.wav''\<rparr>
   \<and> str_path \<lparr>path_parent = ''/tmp'', path_name = ''out.wav''\<rparr> = ''/tmp/out.wav''
   \<and> partition ex_part \<and> partition_ctr ex_part = 0
   \<and> fst (save ex_rt ex_part (Some ex_blk1)) = Ok ()
   \<and> fs (snd (save ex_rt ex_part (Some ex_blk1))) ''/tmpout(0).wav'' =
        Some (Sound \<lparr>file_format = ''WAV'', file_samplerate = 40, file_channels = 1,
                     frames = [[1], [2]]\<rparr>)
   \<and> fs (snd (save ex_rt ex_part (Some ex_blk1))) ''/tmp/out(0).wav'' = None"
  by (simp add: save_partition_tmp ex_part_fields str_nat.simps [of 0] digit_char_def
        str_path_def ex_blk1_def)

subsection \<open>The fallback of \<open>save\<close>\<close>





subsection \<open>The memory estimate\<close>

lemma start_recording_frame:
  "snd (start_recording s fpath max_time) =
     s\<lparr>memory_thread := memory_thread (snd (start_recording s fpath max_time)),
       stop_timer_thread := stop_timer_thread (snd (start_recording s fpath max_time)),
       filepath := filepath (snd (start_recording s fpath max_time)),
       input_stream := input_stream (snd (start_recording s fpath max_time)),
       rec := rec (snd (start_recording s fpath max_time)),
       stdout := stdout (snd (start_recording s fpath max_time))\<rparr>"
  by (simp add: start_recording_def Let_def start_thread_def
        split: attribute.splits option.splits sum.splits)



lemma record_playback_callback_state:
  "snd (record_playback_callback rt s indata outdata status) = record_callback rt s indata status"
  by (simp add: record_playback_callback_def Let_def split: sum.splits)




text \<open>
  The counter of unfinished tasks is never below the number of queued blocks in a
  reachable state, so \<^verbatim>\<open>task_done\<close> does not raise there.
\<close>

lemma reachable_queue:
  assumes "reachable rt s"
  shows "length (items (soundblock_q s)) \<le> unfinished_tasks (soundblock_q s)"
  using assms
proof (induction rule: reachable.induct)
  case (r_init fsys rate chans block_len max_memeory part play)
  show ?case by (simp add: init_def new_queue_def)
next
  case (r_callback s indata status)
  then show ?case by (simp add: record_callback_def put_def Let_def)
next
  case (r_playback s indata outdata status)
  then show ?case
    by (simp add: record_playback_callback_state record_callback_def put_def Let_def)
next
  case (r_tick s)
  show ?case
  proof (cases "max_memory s \<le> mem_size s \<or> False")
    case True
    then show ?thesis by (simp add: manage_record_drains)
  next
    case False
    then show ?thesis using r_tick.IH by (simp add: manage_record_def)
  qed
next
  case (r_start s fpath max_time)
  have "soundblock_q (snd (start_recording s fpath max_time)) = soundblock_q s"
    by (subst start_recording_frame) simp
  then show ?case using r_start.IH by simp
next
  case (r_stop s)
  show ?case
  proof (cases "rec s")
    case False
    then show ?thesis using r_stop.IH by (simp add: stop_recording_def)
  next
    case True
    from stop_recording_active [OF True, of rt] show ?thesis
    proof (elim disjE exE conjE)
      fix e
      assume st: "snd (stop_recording rt s) =
                 s\<lparr>rec := False, stop_timer_thread := None,
                   input_stream := input_stream (snd (stop_recording rt s))\<rparr>"
      have "soundblock_q (snd (stop_recording rt s)) = soundblock_q s" by (subst st) simp
      then show ?thesis using r_stop.IH by simp
    next
      fix s4
      assume st: "stop_recording rt s =
                 (case fst (manage_record rt s4 True) of
                    Raise e \<Rightarrow> (Raise e, snd (manage_record rt s4 True))
                  | Ok b \<Rightarrow> (Ok (), (snd (manage_record rt s4 True))
                                      \<lparr>prev_ab := None, rectime := 0\<rparr>))"
      show ?thesis
        by (simp add: st manage_record_drains split: result.splits)
    qed
  qed
qed

end
